theory Spec2Isabelle
  imports Main
begin

section \<open>Strings and the platform's URL constructor\<close>

text \<open>
  JavaScript strings are modelled as \<^typ>\<open>string\<close>. The regular expressions of the source
  carry the flag \<open>i\<close> and are anchored at the start, so a test is a case-insensitive prefix
  test; without the flag \<open>u\<close> only the ASCII letters fold onto ASCII letters.
\<close>

definition toLowerAscii :: "char \<Rightarrow> char" where
  "toLowerAscii c =
     (case map_of (zip ''ABCDEFGHIJKLMNOPQRSTUVWXYZ'' ''abcdefghijklmnopqrstuvwxyz'') c of
        Some l \<Rightarrow> l
      | None \<Rightarrow> c)"

fun startsWith :: "string \<Rightarrow> string \<Rightarrow> bool" where
  "startsWith s [] = True"
| "startsWith [] (p # ps) = False"
| "startsWith (c # cs) (p # ps) = (c = p \<and> startsWith cs ps)"

text \<open>\<open>s.includes(sub)\<close>: \<open>sub\<close> occurs in \<open>s\<close> as a contiguous run of characters.\<close>

fun str_includes :: "string \<Rightarrow> string \<Rightarrow> bool" where
  "str_includes [] sub = (sub = [])"
| "str_includes (c # cs) sub = (startsWith (c # cs) sub \<or> str_includes cs sub)"

text \<open>\<open>/^p/i.test(s)\<close> for a lower-case literal \<open>p\<close>.\<close>

definition testPrefixCI :: "string \<Rightarrow> string \<Rightarrow> bool" where
  "testPrefixCI p s = startsWith (map toLowerAscii s) p"

text \<open>
  The fields of a parsed \<open>URL\<close> object that the source reads. The constructor \<open>new URL(s)\<close>
  belongs to the platform, not to the repository: every operation that calls it takes it as
  the parameter \<open>parse\<close>, with \<open>None\<close> for the \<open>TypeError\<close> it throws on an invalid URL, and
  the general theorems hold for every such function.
\<close>

record URL =
  hostname :: string
  origin :: string
  pathname :: string

text \<open>
  A concrete constructor for the closed examples. It follows the WHATWG parser on absolute
  URLs of the shape \<open>scheme:[//[userinfo@]host[:port]][path][?query][#fragment]\<close> with an
  ASCII host name; percent-encoding, IDNA, IP literals, dot segments, the stripping of
  white space and the range check and normal form of a port number are not modelled. A
  string with no scheme is invalid, since no base URL is given.
\<close>

definition alphaChars :: string where
  "alphaChars = ''abcdefghijklmnopqrstuvwxyzABCDEFGHIJKLMNOPQRSTUVWXYZ''"

definition schemeChars :: string where
  "schemeChars = alphaChars @ ''0123456789+-.''"

definition splitScheme :: "string \<Rightarrow> (string \<times> string) option" where
  "splitScheme s =
     (case takeWhile (\<lambda>c. c \<in> set schemeChars) s of
        [] \<Rightarrow> None
      | c # cs \<Rightarrow>
          if c \<in> set alphaChars \<and> startsWith (dropWhile (\<lambda>c. c \<in> set schemeChars) s) '':''
          then Some (map toLowerAscii (c # cs), drop 1 (dropWhile (\<lambda>c. c \<in> set schemeChars) s))
          else None)"

definition specialSchemes :: "(string \<times> string) list" where
  "specialSchemes =
     [(''http'', ''80''), (''https'', ''443''), (''ftp'', ''21''), (''ws'', ''80''), (''wss'', ''443'')]"

definition URL_new :: "string \<Rightarrow> URL option" where
  "URL_new s =
     (case splitScheme s of
        None \<Rightarrow> None
      | Some (scheme, rest) \<Rightarrow>
          (case map_of specialSchemes scheme of
             Some defaultPort \<Rightarrow>
               (let after = dropWhile (\<lambda>c. c = CHR ''/'' \<or> c = CHR 0x5C) rest;
                    stop = (\<lambda>c. c \<in> set ''/?#'' \<or> c = CHR 0x5C);
                    authority = takeWhile (\<lambda>c. \<not> stop c) after;
                    hostport = rev (takeWhile (\<lambda>c. c \<noteq> CHR ''@'') (rev authority));
                    host = map toLowerAscii (takeWhile (\<lambda>c. c \<noteq> CHR '':'') hostport);
                    port = drop 1 (dropWhile (\<lambda>c. c \<noteq> CHR '':'') hostport);
                    path = takeWhile (\<lambda>c. c \<notin> set ''?#'') (dropWhile (\<lambda>c. \<not> stop c) after)
                in if host = [] then None
                   else Some \<lparr>hostname = host,
                     origin = scheme @ ''://'' @ host @
                       (if port = [] \<or> port = defaultPort then [] else '':'' @ port),
                     pathname = (if path = [] then ''/'' else path)\<rparr>)
           | None \<Rightarrow>
               (if startsWith rest ''//''
                then
                  (let after = drop 2 rest;
                       authority = takeWhile (\<lambda>c. c \<notin> set ''/?#'') after;
                       hostport = rev (takeWhile (\<lambda>c. c \<noteq> CHR ''@'') (rev authority))
                   in Some \<lparr>hostname = takeWhile (\<lambda>c. c \<noteq> CHR '':'') hostport,
                        origin = ''null'',
                        pathname =
                          takeWhile (\<lambda>c. c \<notin> set ''?#'') (dropWhile (\<lambda>c. c \<notin> set ''/?#'') after)\<rparr>)
                else Some \<lparr>hostname = [], origin = ''null'',
                       pathname = takeWhile (\<lambda>c. c \<notin> set ''?#'') rest\<rparr>)))"

section \<open>Errors, pages and the trace of external calls\<close>

text \<open>
  A thrown \<open>Error\<close> object with its message. Where the source inspects what a call of the
  browser interface rejected with, the rejection has a type of its own below, since it need
  not be an \<open>Error\<close>. Pages and browser handles are opaque object identities.
\<close>

datatype js_error = Error string

type_synonym page = nat

record GoToOptions =
  waitUntil :: string
  timeout :: "nat option"

text \<open>
  Every call that leaves the component (to the browser, to a page, to a callback handed in
  by the caller) is recorded, in order, in a trace. What the outside answers is not under
  the component's control: the environment gives the outcome of each call as a function of
  the calls made so far, \<open>Inl\<close> for a rejection.
\<close>

datatype tab_event =
    Evaluate page
  | Goto page string GoToOptions
  | CreatePage
  | GetActivePage
  | PageUrl page
  | PageClose page
  | OnNewTabRequest string

record tab_env =
  createPage :: "tab_event list \<Rightarrow> js_error + page"
  getActivePage :: "tab_event list \<Rightarrow> js_error + page option"
  page_evaluate :: "tab_event list \<Rightarrow> page \<Rightarrow> js_error + unit"
  page_goto :: "tab_event list \<Rightarrow> page \<Rightarrow> string \<Rightarrow> GoToOptions \<Rightarrow> js_error + unit"
  page_url :: "tab_event list \<Rightarrow> page \<Rightarrow> js_error + string"
  page_close :: "tab_event list \<Rightarrow> page \<Rightarrow> js_error + unit"
  newTabCallback :: "tab_event list \<Rightarrow> string \<Rightarrow> js_error + bool"

section \<open>TabSessionManager (tab-session-manager.ts)\<close>

datatype TabCreationStrategy = always_reuse | smart | always_new

record TabSessionManagerOptions =
  opt_strategy :: "TabCreationStrategy option"
  opt_onNewTabRequest :: bool

text \<open>
  The fields of the class. \<open>onNewTabRequest\<close> says whether the callback is configured; what
  the callback answers is the environment's \<open>newTabCallback\<close>.
\<close>

record TabSessionManager =
  sessionPage :: "page option"
  strategy :: TabCreationStrategy
  onNewTabRequest :: bool
  lastNavigatedUrl :: "string option"

definition new_TabSessionManager :: "TabSessionManagerOptions \<Rightarrow> TabSessionManager" where
  "new_TabSessionManager options =
     \<lparr>sessionPage = None,
      strategy = (case opt_strategy options of None \<Rightarrow> smart | Some s \<Rightarrow> s),
      onNewTabRequest = opt_onNewTabRequest options,
      lastNavigatedUrl = None\<rparr>"

definition NEW_TAB_PATTERNS :: "string list" where
  "NEW_TAB_PATTERNS = [''mailto:'', ''tel:'', ''javascript:'']"

definition WORKSPACE_DOMAINS :: "string list" where
  "WORKSPACE_DOMAINS =
     [''mail.google.com'', ''gmail.com'', ''outlook.office.com'', ''outlook.live.com'',
      ''calendar.google.com'', ''drive.google.com'', ''docs.google.com'', ''sheets.google.com'',
      ''github.com'', ''notion.so'', ''slack.com'', ''trello.com'', ''asana.com'']"

definition noSessionPageError :: js_error where
  "noSessionPageError = Error ''No session page available. Call getOrCreateSessionPage first.''"

definition normalizeUrl :: "string \<Rightarrow> string" where
  "normalizeUrl url =
     (if \<not> (testPrefixCI ''http://'' url \<or> testPrefixCI ''https://'' url)
      then ''https://'' @ url
      else url)"

definition isSessionPageValid ::
  "tab_env \<Rightarrow> TabSessionManager \<Rightarrow> tab_event list \<Rightarrow> bool \<times> TabSessionManager \<times> tab_event list"
where
  "isSessionPageValid E m tr =
     (case sessionPage m of
        None \<Rightarrow> (False, m, tr)
      | Some p \<Rightarrow>
          (case page_evaluate E tr p of
             Inr _ \<Rightarrow> (True, m, tr @ [Evaluate p])
           | Inl _ \<Rightarrow> (False, m\<lparr>sessionPage := None\<rparr>, tr @ [Evaluate p])))"

definition findReusablePage ::
  "tab_env \<Rightarrow> TabSessionManager \<Rightarrow> tab_event list \<Rightarrow> page option \<times> tab_event list"
where
  "findReusablePage E m tr =
     (if strategy m = always_new then (None, tr)
      else
        (case getActivePage E tr of
           Inl _ \<Rightarrow> (None, tr @ [GetActivePage])
         | Inr None \<Rightarrow> (None, tr @ [GetActivePage])
         | Inr (Some activePage) \<Rightarrow>
             (case page_evaluate E (tr @ [GetActivePage]) activePage of
                Inl _ \<Rightarrow> (None, tr @ [GetActivePage, Evaluate activePage])
              | Inr _ \<Rightarrow>
                  (case page_url E (tr @ [GetActivePage, Evaluate activePage]) activePage of
                     Inl _ \<Rightarrow> (None, tr @ [GetActivePage, Evaluate activePage, PageUrl activePage])
                   | Inr _ \<Rightarrow>
                       (Some activePage,
                        tr @ [GetActivePage, Evaluate activePage, PageUrl activePage])))))"

definition shouldNavigateToUrl ::
  "(string \<Rightarrow> URL option) \<Rightarrow> TabSessionManager \<Rightarrow> string \<Rightarrow> bool"
where
  "shouldNavigateToUrl parse m targetUrl =
     (case lastNavigatedUrl m of
        None \<Rightarrow> True
      | Some lastUrl \<Rightarrow>
          if lastUrl = [] then True
          else
            (case parse lastUrl of
               None \<Rightarrow> True
             | Some current \<Rightarrow>
                 (case parse targetUrl of
                    None \<Rightarrow> True
                  | Some target \<Rightarrow>
                      origin current \<noteq> origin target \<or> pathname current \<noteq> pathname target)))"

definition navigateTo ::
  "tab_env \<Rightarrow> string \<Rightarrow> TabSessionManager \<Rightarrow> tab_event list \<Rightarrow>
   (js_error + unit) \<times> TabSessionManager \<times> tab_event list"
where
  "navigateTo E url m tr =
     (case sessionPage m of
        None \<Rightarrow> (Inl noSessionPageError, m, tr)
      | Some p \<Rightarrow>
          (let normalizedUrl = normalizeUrl url;
               options = \<lparr>waitUntil = ''networkidle2'', timeout = Some 30000\<rparr>
           in case page_goto E tr p normalizedUrl options of
                Inl e \<Rightarrow> (Inl e, m, tr @ [Goto p normalizedUrl options])
              | Inr _ \<Rightarrow>
                  (Inr (), m\<lparr>lastNavigatedUrl := Some normalizedUrl\<rparr>,
                   tr @ [Goto p normalizedUrl options])))"

text \<open>
  \<open>await this.navigateTo(url); return this.sessionPage\<close>, the tail that three branches of
  \<open>getOrCreateSessionPage\<close> and one of \<open>requestNewTab\<close> share. The non-null assertion
  \<open>this.sessionPage!\<close> checks nothing at run time, so the field is returned as it is.
\<close>

definition navigateAndReturn ::
  "tab_env \<Rightarrow> string \<Rightarrow> TabSessionManager \<Rightarrow> tab_event list \<Rightarrow>
   (js_error + page option) \<times> TabSessionManager \<times> tab_event list"
where
  "navigateAndReturn E url m tr =
     (case navigateTo E url m tr of
        (Inl e, m', tr') \<Rightarrow> (Inl e, m', tr')
      | (Inr _, m', tr') \<Rightarrow> (Inr (sessionPage m'), m', tr'))"

text \<open>\<open>initialUrl\<close> is optional; \<open>if (initialUrl)\<close> holds for a non-empty string.\<close>

definition truthy :: "string option \<Rightarrow> bool" where
  "truthy u = (case u of None \<Rightarrow> False | Some s \<Rightarrow> s \<noteq> [])"

definition str :: "string option \<Rightarrow> string" where
  "str u = (case u of None \<Rightarrow> [] | Some s \<Rightarrow> s)"

definition getOrCreateSessionPage ::
  "(string \<Rightarrow> URL option) \<Rightarrow> tab_env \<Rightarrow> string option \<Rightarrow> TabSessionManager \<Rightarrow>
   tab_event list \<Rightarrow> (js_error + page option) \<times> TabSessionManager \<times> tab_event list"
where
  "getOrCreateSessionPage parse E initialUrl m tr =
     (case isSessionPageValid E m tr of
        (True, m1, tr1) \<Rightarrow>
          if truthy initialUrl \<and> shouldNavigateToUrl parse m1 (str initialUrl)
          then navigateAndReturn E (str initialUrl) m1 tr1
          else (Inr (sessionPage m1), m1, tr1)
      | (False, m1, tr1) \<Rightarrow>
          (case findReusablePage E m1 tr1 of
             (Some reusablePage, tr2) \<Rightarrow>
               if truthy initialUrl
               then navigateAndReturn E (str initialUrl) (m1\<lparr>sessionPage := Some reusablePage\<rparr>) tr2
               else (Inr (Some reusablePage), m1\<lparr>sessionPage := Some reusablePage\<rparr>, tr2)
           | (None, tr2) \<Rightarrow>
               (case createPage E tr2 of
                  Inl e \<Rightarrow> (Inl e, m1, tr2 @ [CreatePage])
                | Inr newPage \<Rightarrow>
                    if truthy initialUrl
                    then navigateAndReturn E (str initialUrl)
                           (m1\<lparr>sessionPage := Some newPage\<rparr>) (tr2 @ [CreatePage])
                    else (Inr (Some newPage), m1\<lparr>sessionPage := Some newPage\<rparr>,
                          tr2 @ [CreatePage]))))"

definition requestNewTab ::
  "tab_env \<Rightarrow> string \<Rightarrow> TabSessionManager \<Rightarrow> tab_event list \<Rightarrow>
   (js_error + page option) \<times> TabSessionManager \<times> tab_event list"
where
  "requestNewTab E url m tr =
     (let create = (\<lambda>tr1.
            case createPage E tr1 of
              Inl e \<Rightarrow> (Inl e, m, tr1 @ [CreatePage])
            | Inr newPage \<Rightarrow>
                (let options = \<lparr>waitUntil = ''networkidle2'', timeout = None\<rparr>
                 in case page_goto E (tr1 @ [CreatePage]) newPage (normalizeUrl url) options of
                      Inl e \<Rightarrow> (Inl e, m, tr1 @ [CreatePage, Goto newPage (normalizeUrl url) options])
                    | Inr _ \<Rightarrow>
                        (Inr (Some newPage),
                         m\<lparr>sessionPage := Some newPage, lastNavigatedUrl := Some url\<rparr>,
                         tr1 @ [CreatePage, Goto newPage (normalizeUrl url) options])))
      in if onNewTabRequest m
         then
           (case newTabCallback E tr url of
              Inl e \<Rightarrow> (Inl e, m, tr @ [OnNewTabRequest url])
            | Inr approved \<Rightarrow>
                if \<not> approved then navigateAndReturn E url m (tr @ [OnNewTabRequest url])
                else create (tr @ [OnNewTabRequest url]))
         else create tr)"

definition shouldCreateNewTab ::
  "(string \<Rightarrow> URL option) \<Rightarrow> TabSessionManager \<Rightarrow> string option \<Rightarrow> string \<Rightarrow> bool"
where
  "shouldCreateNewTab parse m currentUrl targetUrl =
     (if strategy m = always_reuse then False
      else if strategy m = always_new then True
      else if list_ex (\<lambda>pattern. testPrefixCI pattern targetUrl) NEW_TAB_PATTERNS then True
      else if \<not> truthy currentUrl then False
      else
        (case parse (str currentUrl) of
           None \<Rightarrow> False
         | Some current \<Rightarrow>
             (case parse targetUrl of
                None \<Rightarrow> False
              | Some target \<Rightarrow>
                  if hostname current = hostname target then False
                  else
                    (let isLeavingWorkspace =
                           list_ex (\<lambda>domain. str_includes (hostname current) domain) WORKSPACE_DOMAINS;
                         isGoingToWorkspace =
                           list_ex (\<lambda>domain. str_includes (hostname target) domain) WORKSPACE_DOMAINS
                     in if isLeavingWorkspace \<and> isGoingToWorkspace then True else False))))"

definition getSessionPage :: "TabSessionManager \<Rightarrow> page option" where
  "getSessionPage m = sessionPage m"

definition getCurrentUrl ::
  "tab_env \<Rightarrow> TabSessionManager \<Rightarrow> tab_event list \<Rightarrow>
   string option \<times> TabSessionManager \<times> tab_event list"
where
  "getCurrentUrl E m tr =
     (case isSessionPageValid E m tr of
        (False, m1, tr1) \<Rightarrow> (None, m1, tr1)
      | (True, m1, tr1) \<Rightarrow>
          (case sessionPage m1 of
             None \<Rightarrow> (None, m1, tr1)
           | Some p \<Rightarrow>
               (case page_url E tr1 p of
                  Inl _ \<Rightarrow> (None, m1, tr1 @ [PageUrl p])
                | Inr u \<Rightarrow> (Some u, m1, tr1 @ [PageUrl p]))))"

definition cleanup ::
  "tab_env \<Rightarrow> TabSessionManager \<Rightarrow> tab_event list \<Rightarrow>
   (js_error + unit) \<times> TabSessionManager \<times> tab_event list"
where
  "cleanup E m tr =
     (case sessionPage m of
        None \<Rightarrow> (Inr (), m, tr)
      | Some p \<Rightarrow>
          (case page_close E tr p of
             Inl _ \<Rightarrow>
               (Inr (), m\<lparr>sessionPage := None, lastNavigatedUrl := None\<rparr>, tr @ [PageClose p])
           | Inr _ \<Rightarrow>
               (Inr (), m\<lparr>sessionPage := None, lastNavigatedUrl := None\<rparr>, tr @ [PageClose p])))"

section \<open>SmartBrowserManager (smart-browser-manager.ts)\<close>

text \<open>
  \<open>LaunchOptions\<close> is declared in \<open>types.ts\<close>, which is not among the sources; the two
  fields the manager writes are kept. A browser handle is the object \<open>new RemoteBrowser\<close> or
  \<open>new LocalBrowser\<close> creates; it is numbered by the count of external calls made before its
  creation, so two handles created at different moments differ.
\<close>

record LaunchOptions =
  args :: "string list option"
  lo_userDataDir :: "string option"

datatype handle = RemoteBrowser nat | LocalBrowser nat

datatype BrowserConnectionMode = attached | launched | reused

record GetBrowserResult =
  result_browser :: handle
  mode :: BrowserConnectionMode
  isNewInstance :: bool

text \<open>
  What \<open>fetch\<close> resolves to: the status line and what \<open>response.json()\<close> gives, a rejection
  when the body is not JSON. Of the parsed value the source reads two properties, which
  throws on \<open>null\<close> and on nothing else.
\<close>

datatype json_value = JsonNull | JsonNonNull

record Response =
  status :: nat
  json :: "js_error + json_value"

definition ok :: "Response \<Rightarrow> bool" where
  "ok response = (200 \<le> status response \<and> status response \<le> 299)"

text \<open>
  What \<open>getActivePage\<close> and \<open>evaluate\<close> may reject with. \<open>LocalBrowser\<close> and \<open>RemoteBrowser\<close> are
  not among the sources and a promise may reject with any value, so the value either carries
  a string \<open>message\<close> (as every \<open>Error\<close> does) or it does not (a string, \<open>undefined\<close>, an object
  with no such property). On the second kind \<open>(e as Error).message.includes(...)\<close> throws a
  \<open>TypeError\<close>; its wording is the engine's.
\<close>

datatype rejection = WithMessage string | WithoutMessage

definition catchTypeError :: js_error where
  "catchTypeError = Error ''Cannot read properties of undefined''"

datatype browser_event =
    Fetch string nat
  | ResponseJson
  | RemoteLaunch handle string LaunchOptions
  | LocalLaunch handle LaunchOptions
  | BrowserGetActivePage handle
  | BrowserPageEvaluate page
  | BrowserClose handle
  | OnBrowserLaunch

text \<open>
  The outside of the manager: the network, the two browser classes and the caller's
  callback. \<open>fetch\<close> is given the abort delay; a probe that times out is a rejection.
\<close>

record browser_env =
  fetch :: "browser_event list \<Rightarrow> string \<Rightarrow> nat \<Rightarrow> js_error + Response"
  remote_launch :: "browser_event list \<Rightarrow> handle \<Rightarrow> string \<Rightarrow> LaunchOptions \<Rightarrow> js_error + unit"
  local_launch :: "browser_event list \<Rightarrow> handle \<Rightarrow> LaunchOptions \<Rightarrow> js_error + unit"
  browser_getActivePage :: "browser_event list \<Rightarrow> handle \<Rightarrow> rejection + page option"
  browser_page_evaluate :: "browser_event list \<Rightarrow> page \<Rightarrow> rejection + unit"
  browser_close :: "browser_event list \<Rightarrow> handle \<Rightarrow> js_error + unit"
  browserLaunchCallback :: "browser_event list \<Rightarrow> js_error + unit"

record SmartBrowserConfig =
  cfg_debugPort :: "nat option"
  cfg_persistentMode :: "bool option"
  cfg_userDataDir :: "string option"
  cfg_launchOptions :: "LaunchOptions option"
  cfg_onBrowserLaunch :: bool

record SmartBrowserManager =
  browser :: "handle option"
  debugPort :: nat
  persistentMode :: bool
  userDataDir :: "string option"
  launchOptions :: LaunchOptions
  onBrowserLaunch :: bool
  isConnectedToExternal :: bool

definition emptyConfig :: SmartBrowserConfig where
  "emptyConfig =
     \<lparr>cfg_debugPort = None, cfg_persistentMode = None, cfg_userDataDir = None,
      cfg_launchOptions = None, cfg_onBrowserLaunch = False\<rparr>"

text \<open>The private constructor; \<open>config\<close> defaults to \<open>{}\<close>.\<close>

definition new_SmartBrowserManager :: "SmartBrowserConfig option \<Rightarrow> SmartBrowserManager" where
  "new_SmartBrowserManager config =
     (let c = (case config of None \<Rightarrow> emptyConfig | Some c \<Rightarrow> c)
      in \<lparr>browser = None,
          debugPort = (case cfg_debugPort c of None \<Rightarrow> 9222 | Some p \<Rightarrow> p),
          persistentMode = (case cfg_persistentMode c of None \<Rightarrow> True | Some b \<Rightarrow> b),
          userDataDir = cfg_userDataDir c,
          launchOptions =
            (case cfg_launchOptions c of
               None \<Rightarrow> \<lparr>args = None, lo_userDataDir = None\<rparr>
             | Some l \<Rightarrow> l),
          onBrowserLaunch = cfg_onBrowserLaunch c,
          isConnectedToExternal = False\<rparr>)"

text \<open>
  The class with its static field. Objects live in a store that only grows; a reference is
  an index into it, so two references are the same object exactly when they are equal.
\<close>

record SmartBrowserManager_class =
  instance_ref :: "nat option"
  objects :: "SmartBrowserManager list"

definition getInstance ::
  "SmartBrowserConfig option \<Rightarrow> SmartBrowserManager_class \<Rightarrow> nat \<times> SmartBrowserManager_class"
where
  "getInstance config c =
     (case instance_ref c of
        None \<Rightarrow>
          (length (objects c),
           c\<lparr>instance_ref := Some (length (objects c)),
             objects := objects c @ [new_SmartBrowserManager config]\<rparr>)
      | Some r \<Rightarrow> (r, c))"

definition resetInstance :: "SmartBrowserManager_class \<Rightarrow> SmartBrowserManager_class" where
  "resetInstance c = c\<lparr>instance_ref := None\<rparr>"

text \<open>The decimal digits of a port number, for the template strings.\<close>

fun showNat :: "nat \<Rightarrow> string" where
  "showNat n =
     (if n < 10 then [''0123456789'' ! n]
      else showNat (n div 10) @ [''0123456789'' ! (n mod 10)])"

declare showNat.simps [simp del]

definition versionEndpoint :: "nat \<Rightarrow> string" where
  "versionEndpoint port = ''http://127.0.0.1:'' @ showNat port @ ''/json/version''"

definition isDebugPortActive ::
  "browser_env \<Rightarrow> SmartBrowserManager \<Rightarrow> browser_event list \<Rightarrow>
   (js_error + bool) \<times> SmartBrowserManager \<times> browser_event list"
where
  "isDebugPortActive E m tr =
     (let endpoint = versionEndpoint (debugPort m)
      in case fetch E tr endpoint 1000 of
           Inl _ \<Rightarrow> (Inr False, m, tr @ [Fetch endpoint 1000])
         | Inr response \<Rightarrow>
             if ok response
             then
               (case json response of
                  Inl _ \<Rightarrow> (Inr False, m, tr @ [Fetch endpoint 1000, ResponseJson])
                | Inr JsonNull \<Rightarrow> (Inr False, m, tr @ [Fetch endpoint 1000, ResponseJson])
                | Inr JsonNonNull \<Rightarrow> (Inr True, m, tr @ [Fetch endpoint 1000, ResponseJson]))
             else (Inr False, m, tr @ [Fetch endpoint 1000]))"

definition connectToExisting ::
  "browser_env \<Rightarrow> SmartBrowserManager \<Rightarrow> browser_event list \<Rightarrow>
   (js_error + handle) \<times> SmartBrowserManager \<times> browser_event list"
where
  "connectToExisting E m tr =
     (let b = RemoteBrowser (length tr);
          endpoint = versionEndpoint (debugPort m)
      in case remote_launch E tr b endpoint (launchOptions m) of
           Inl e \<Rightarrow> (Inl e, m, tr @ [RemoteLaunch b endpoint (launchOptions m)])
         | Inr _ \<Rightarrow>
             (Inr b, m\<lparr>browser := Some b, isConnectedToExternal := True\<rparr>,
              tr @ [RemoteLaunch b endpoint (launchOptions m)]))"

definition launchWithDebugPort ::
  "browser_env \<Rightarrow> SmartBrowserManager \<Rightarrow> browser_event list \<Rightarrow>
   (js_error + handle) \<times> SmartBrowserManager \<times> browser_event list"
where
  "launchWithDebugPort E m tr =
     (let b = LocalBrowser (length tr);
          launchArgs =
            (''--remote-debugging-port='' @ showNat (debugPort m)) #
            (case args (launchOptions m) of None \<Rightarrow> [] | Some a \<Rightarrow> a);
          options = (launchOptions m)\<lparr>args := Some launchArgs, lo_userDataDir := userDataDir m\<rparr>
      in case local_launch E tr b options of
           Inl e \<Rightarrow> (Inl e, m, tr @ [LocalLaunch b options])
         | Inr _ \<Rightarrow>
             (Inr b, m\<lparr>browser := Some b, isConnectedToExternal := False\<rparr>,
              tr @ [LocalLaunch b options]))"

text \<open>
  The \<open>try\<close> block and its \<open>catch\<close>. The handler reads the message of what was thrown: a
  message that contains \<open>No pages available\<close> gives alive, any other message gives dead, and
  a rejection with no string message makes the handler itself throw. When \<open>getActivePage\<close>
  resolves to no page, \<open>page.evaluate\<close> throws a \<open>TypeError\<close> inside the \<open>try\<close> block, an
  \<open>Error\<close> whose message does not speak of pages, and the handle counts as dead.
\<close>

definition isBrowserAlive ::
  "browser_env \<Rightarrow> handle \<Rightarrow> browser_event list \<Rightarrow> (js_error + bool) \<times> browser_event list"
where
  "isBrowserAlive E b tr =
     (case browser_getActivePage E tr b of
        Inl (WithMessage errorMessage) \<Rightarrow>
          (Inr (str_includes errorMessage ''No pages available''), tr @ [BrowserGetActivePage b])
      | Inl WithoutMessage \<Rightarrow> (Inl catchTypeError, tr @ [BrowserGetActivePage b])
      | Inr None \<Rightarrow> (Inr False, tr @ [BrowserGetActivePage b])
      | Inr (Some p) \<Rightarrow>
          (case browser_page_evaluate E (tr @ [BrowserGetActivePage b]) p of
             Inl (WithMessage errorMessage) \<Rightarrow>
               (Inr (str_includes errorMessage ''No pages available''),
                tr @ [BrowserGetActivePage b, BrowserPageEvaluate p])
           | Inl WithoutMessage \<Rightarrow>
               (Inl catchTypeError, tr @ [BrowserGetActivePage b, BrowserPageEvaluate p])
           | Inr _ \<Rightarrow> (Inr True, tr @ [BrowserGetActivePage b, BrowserPageEvaluate p])))"

definition getOrCreateBrowser ::
  "browser_env \<Rightarrow> SmartBrowserManager \<Rightarrow> browser_event list \<Rightarrow>
   (js_error + GetBrowserResult) \<times> SmartBrowserManager \<times> browser_event list"
where
  "getOrCreateBrowser E m tr =
     (let attach = (\<lambda>m1 tr1.
            case connectToExisting E m1 tr1 of
              (Inl e, m2, tr2) \<Rightarrow> (Inl e, m2, tr2)
            | (Inr b, m2, tr2) \<Rightarrow>
                (Inr \<lparr>result_browser = b, mode = attached, isNewInstance = True\<rparr>, m2, tr2));
          launch = (\<lambda>m1 tr1.
            case launchWithDebugPort E m1 tr1 of
              (Inl e, m2, tr2) \<Rightarrow> (Inl e, m2, tr2)
            | (Inr b, m2, tr2) \<Rightarrow>
                (Inr \<lparr>result_browser = b, mode = launched, isNewInstance = True\<rparr>, m2, tr2));
          notifyAndLaunch = (\<lambda>m1 tr1.
            if onBrowserLaunch m1
            then
              (case browserLaunchCallback E tr1 of
                 Inl e \<Rightarrow> (Inl e, m1, tr1 @ [OnBrowserLaunch])
               | Inr _ \<Rightarrow> launch m1 (tr1 @ [OnBrowserLaunch]))
            else launch m1 tr1)
      in case isDebugPortActive E m tr of
           (Inl e, m0, tr0) \<Rightarrow> (Inl e, m0, tr0)
         | (Inr True, m0, tr0) \<Rightarrow>
             (case browser m0 of
                None \<Rightarrow> attach m0 tr0
              | Some held \<Rightarrow>
                  if isConnectedToExternal m0
                  then
                    (case isBrowserAlive E held tr0 of
                       (Inl e, tr1) \<Rightarrow> (Inl e, m0, tr1)
                     | (Inr True, tr1) \<Rightarrow>
                         (Inr \<lparr>result_browser = held, mode = reused, isNewInstance = False\<rparr>,
                          m0, tr1)
                     | (Inr False, tr1) \<Rightarrow> attach m0 tr1)
                  else attach m0 tr0)
         | (Inr False, m0, tr0) \<Rightarrow>
             (case browser m0 of
                None \<Rightarrow> notifyAndLaunch m0 tr0
              | Some held \<Rightarrow>
                  if \<not> isConnectedToExternal m0
                  then
                    (case isBrowserAlive E held tr0 of
                       (Inl e, tr1) \<Rightarrow> (Inl e, m0, tr1)
                     | (Inr True, tr1) \<Rightarrow>
                         (Inr \<lparr>result_browser = held, mode = reused, isNewInstance = False\<rparr>,
                          m0, tr1)
                     | (Inr False, tr1) \<Rightarrow> notifyAndLaunch (m0\<lparr>browser := None\<rparr>) tr1)
                  else notifyAndLaunch m0 tr0))"

definition getBrowser :: "SmartBrowserManager \<Rightarrow> handle option" where
  "getBrowser m = browser m"

definition isExternalBrowser :: "SmartBrowserManager \<Rightarrow> bool" where
  "isExternalBrowser m = isConnectedToExternal m"

definition closeBrowser ::
  "browser_env \<Rightarrow> bool \<Rightarrow> SmartBrowserManager \<Rightarrow> browser_event list \<Rightarrow>
   (js_error + unit) \<times> SmartBrowserManager \<times> browser_event list"
where
  "closeBrowser E force m tr =
     (case browser m of
        None \<Rightarrow> (Inr (), m, tr)
      | Some b \<Rightarrow>
          if isConnectedToExternal m \<and> \<not> force
          then (Inr (), m\<lparr>browser := None, isConnectedToExternal := False\<rparr>, tr)
          else if persistentMode m \<and> \<not> force
          then (Inr (), m, tr)
          else
            (case browser_close E tr b of
               Inr _ \<Rightarrow>
                 (Inr (), m\<lparr>browser := None, isConnectedToExternal := False\<rparr>,
                  tr @ [BrowserClose b])
             | Inl _ \<Rightarrow>
                 (Inr (), m\<lparr>browser := None, isConnectedToExternal := False\<rparr>,
                  tr @ [BrowserClose b])))"

definition disconnect :: "SmartBrowserManager \<Rightarrow> SmartBrowserManager" where
  "disconnect m = m\<lparr>browser := None, isConnectedToExternal := False\<rparr>"

section \<open>Observations on an acquisition, and the class as a state machine\<close>



definition heldFor :: "SmartBrowserManager \<Rightarrow> bool \<Rightarrow> handle option" where
  "heldFor m external =
     (case browser m of
        None \<Rightarrow> None
      | Some h \<Rightarrow> if isConnectedToExternal m = external then Some h else None)"







definition tagged ::
  "BrowserConnectionMode \<Rightarrow> (js_error + handle) \<times> SmartBrowserManager \<times> browser_event list \<Rightarrow>
   (js_error + GetBrowserResult) \<times> SmartBrowserManager \<times> browser_event list"
where
  "tagged md out =
     (case out of
        (Inl e, m, tr) \<Rightarrow> (Inl e, m, tr)
      | (Inr b, m, tr) \<Rightarrow> (Inr \<lparr>result_browser = b, mode = md, isNewInstance = True\<rparr>, m, tr))"

definition notifyAndLaunch ::
  "browser_env \<Rightarrow> SmartBrowserManager \<Rightarrow> browser_event list \<Rightarrow>
   (js_error + GetBrowserResult) \<times> SmartBrowserManager \<times> browser_event list"
where
  "notifyAndLaunch E m tr =
     (if onBrowserLaunch m
      then
        (case browserLaunchCallback E tr of
           Inl e \<Rightarrow> (Inl e, m, tr @ [OnBrowserLaunch])
         | Inr _ \<Rightarrow> tagged launched (launchWithDebugPort E m (tr @ [OnBrowserLaunch])))
      else tagged launched (launchWithDebugPort E m tr))"

definition forgetOwnHandle :: "SmartBrowserManager \<Rightarrow> SmartBrowserManager" where
  "forgetOwnHandle m =
     (if browser m \<noteq> None \<and> \<not> isConnectedToExternal m then m\<lparr>browser := None\<rparr> else m)"

definition acquire ::
  "browser_env \<Rightarrow> bool \<Rightarrow> SmartBrowserManager \<Rightarrow> browser_event list \<Rightarrow>
   (js_error + GetBrowserResult) \<times> SmartBrowserManager \<times> browser_event list"
where
  "acquire E active m tr =
     (if active then tagged attached (connectToExisting E m tr)
      else notifyAndLaunch E (forgetOwnHandle m) tr)"

text \<open>
  The calls a program can make on the class and on its objects, run in sequence. A method
  called through a reference that denotes no object is not a run of the program and changes
  nothing.
\<close>

datatype class_op =
    GetInstance "SmartBrowserConfig option"
  | ResetInstance
  | GetOrCreateBrowser nat
  | CloseBrowser nat bool
  | Disconnect nat

definition updateObject ::
  "nat \<Rightarrow> SmartBrowserManager \<Rightarrow> SmartBrowserManager_class \<Rightarrow> SmartBrowserManager_class"
where
  "updateObject r m c = c\<lparr>objects := (objects c)[r := m]\<rparr>"

fun class_step ::
  "browser_env \<Rightarrow> SmartBrowserManager_class \<times> browser_event list \<Rightarrow> class_op \<Rightarrow>
   SmartBrowserManager_class \<times> browser_event list"
where
  "class_step E (c, tr) (GetInstance config) = (snd (getInstance config c), tr)"
| "class_step E (c, tr) ResetInstance = (resetInstance c, tr)"
| "class_step E (c, tr) (GetOrCreateBrowser r) =
     (if r < length (objects c)
      then (case getOrCreateBrowser E (objects c ! r) tr of (_, m', tr') \<Rightarrow> (updateObject r m' c, tr'))
      else (c, tr))"
| "class_step E (c, tr) (CloseBrowser r force) =
     (if r < length (objects c)
      then (case closeBrowser E force (objects c ! r) tr of (_, m', tr') \<Rightarrow> (updateObject r m' c, tr'))
      else (c, tr))"
| "class_step E (c, tr) (Disconnect r) =
     (if r < length (objects c) then (updateObject r (disconnect (objects c ! r)) c, tr) else (c, tr))"

definition run_class ::
  "browser_env \<Rightarrow> SmartBrowserManager_class \<times> browser_event list \<Rightarrow> class_op list \<Rightarrow>
   SmartBrowserManager_class \<times> browser_event list"
where
  "run_class E s ops = foldl (class_step E) s ops"

text \<open>The read-only fields of a manager: what its configuration fixed.\<close>

definition configOf ::
  "SmartBrowserManager \<Rightarrow> nat \<times> bool \<times> string option \<times> LaunchOptions \<times> bool"
where
  "configOf m = (debugPort m, persistentMode m, userDataDir m, launchOptions m, onBrowserLaunch m)"

text \<open>
  The singleton as an invariant of the class: the static field holds the reference \<open>r\<close>, which
  denotes an object whose read-only fields are \<open>cfg\<close>.
\<close>

definition singletonHolds ::
  "nat \<Rightarrow> nat \<times> bool \<times> string option \<times> LaunchOptions \<times> bool \<Rightarrow> SmartBrowserManager_class \<Rightarrow> bool"
where
  "singletonHolds r cfg c =
     (instance_ref c = Some r \<and> r < length (objects c) \<and> configOf (objects c ! r) = cfg)"

definition port9333 :: SmartBrowserConfig where
  "port9333 = emptyConfig\<lparr>cfg_debugPort := Some 9333\<rparr>"

definition noInstance :: SmartBrowserManager_class where
  "noInstance = \<lparr>instance_ref = None, objects = []\<rparr>"

section \<open>The specification's wording, for comparison\<close>

text \<open>
  The tab decision in the specification's words: under the smart strategy the last positive
  rule asks that the current and the target host match two distinct entries of the
  workspace-domain list, and every other case is negative.
\<close>

definition matchesNewTabPattern :: "string \<Rightarrow> bool" where
  "matchesNewTabPattern targetUrl = list_ex (\<lambda>pattern. testPrefixCI pattern targetUrl) NEW_TAB_PATTERNS"

definition isWorkspaceHost :: "string \<Rightarrow> bool" where
  "isWorkspaceHost host = list_ex (\<lambda>domain. str_includes host domain) WORKSPACE_DOMAINS"

definition matchDistinctEntries :: "string \<Rightarrow> string \<Rightarrow> bool" where
  "matchDistinctEntries currentHost targetHost =
     list_ex (\<lambda>d1. list_ex (\<lambda>d2. d1 \<noteq> d2 \<and> str_includes currentHost d1 \<and> str_includes targetHost d2)
       WORKSPACE_DOMAINS) WORKSPACE_DOMAINS"

definition shouldCreateNewTab_spec ::
  "(string \<Rightarrow> URL option) \<Rightarrow> TabSessionManager \<Rightarrow> string option \<Rightarrow> string \<Rightarrow> bool"
where
  "shouldCreateNewTab_spec parse m currentUrl targetUrl =
     (case strategy m of
        always_reuse \<Rightarrow> False
      | always_new \<Rightarrow> True
      | smart \<Rightarrow>
          if matchesNewTabPattern targetUrl then True
          else
            (case currentUrl of
               None \<Rightarrow> False
             | Some cu \<Rightarrow>
                 (case parse cu of
                    None \<Rightarrow> False
                  | Some current \<Rightarrow>
                      (case parse targetUrl of
                         None \<Rightarrow> False
                       | Some target \<Rightarrow>
                           if hostname current = hostname target then False
                           else matchDistinctEntries (hostname current) (hostname target)))))"

definition smartManager :: TabSessionManager where
  "smartManager = new_TabSessionManager \<lparr>opt_strategy = None, opt_onNewTabRequest = False\<rparr>"

text \<open>
  Normalisation in the specification's words: the prefix is added exactly when the string
  gives no scheme. A scheme is a letter followed by letters, digits, \<open>+\<close>, \<open>-\<close> or \<open>.\<close>, up to
  a colon.
\<close>

definition hasScheme :: "string \<Rightarrow> bool" where
  "hasScheme url = (splitScheme url \<noteq> None)"

definition normalizeUrl_spec :: "string \<Rightarrow> string" where
  "normalizeUrl_spec url = (if \<not> hasScheme url then ''https://'' @ url else url)"

text \<open>
  The port probe in the specification's words: true exactly when the endpoint answers with
  HTTP 200 and a JSON body within the timeout.
\<close>

definition isDebugPortActive_spec ::
  "browser_env \<Rightarrow> SmartBrowserManager \<Rightarrow> browser_event list \<Rightarrow> bool"
where
  "isDebugPortActive_spec E m tr =
     (case fetch E tr (versionEndpoint (debugPort m)) 1000 of
        Inl _ \<Rightarrow> False
      | Inr response \<Rightarrow>
          status response = 200 \<and> (case json response of Inl _ \<Rightarrow> False | Inr _ \<Rightarrow> True))"




section \<open>Environments for the closed examples\<close>

text \<open>
  A running browser with no tab open: \<open>getActivePage\<close> rejects, every other call succeeds,
  new pages are numbered in the order of their creation, and the confirmation callback
  approves every URL but one.
\<close>

definition pagesCreated :: "tab_event list \<Rightarrow> nat" where
  "pagesCreated tr = length (filter (\<lambda>e. e = CreatePage) tr)"

definition emptyBrowser :: tab_env where
  "emptyBrowser =
     \<lparr>createPage = (\<lambda>tr. Inr (Suc (pagesCreated tr))),
      getActivePage = (\<lambda>tr. Inl (Error ''No pages available'')),
      page_evaluate = (\<lambda>tr p. Inr ()),
      page_goto = (\<lambda>tr p url options. Inr ()),
      page_url = (\<lambda>tr p. Inr ''about:blank''),
      page_close = (\<lambda>tr p. Inr ()),
      newTabCallback = (\<lambda>tr url. Inr (url \<noteq> ''denied.example''))\<rparr>"

text \<open>The same browser, except that its first page no longer answers once it is probed.\<close>

definition firstPageDies :: tab_env where
  "firstPageDies =
     emptyBrowser\<lparr>page_evaluate := (\<lambda>tr p. if p = 1 then Inl (Error ''Target closed'') else Inr ())\<rparr>"

definition networkidle2_30s :: GoToOptions where
  "networkidle2_30s = \<lparr>waitUntil = ''networkidle2'', timeout = Some 30000\<rparr>"

definition networkidle2 :: GoToOptions where
  "networkidle2 = \<lparr>waitUntil = ''networkidle2'', timeout = None\<rparr>"

definition confirmingManager :: TabSessionManager where
  "confirmingManager = new_TabSessionManager \<lparr>opt_strategy = None, opt_onNewTabRequest = True\<rparr>"

text \<open>
  A debuggable browser that listens on the port and has no page open; and a machine on which
  nothing listens, where a local browser can be launched. The third endpoint answers the
  probe with status 201. The fourth browser rejects \<open>getActivePage\<close> with a value that has no
  message.
\<close>

definition externalChrome :: browser_env where
  "externalChrome =
     \<lparr>fetch = (\<lambda>tr endpoint ms. Inr \<lparr>status = 200, json = Inr JsonNonNull\<rparr>),
      remote_launch = (\<lambda>tr b endpoint options. Inr ()),
      local_launch = (\<lambda>tr b options. Inr ()),
      browser_getActivePage = (\<lambda>tr b. Inl (WithMessage ''No pages available'')),
      browser_page_evaluate = (\<lambda>tr p. Inr ()),
      browser_close = (\<lambda>tr b. Inr ()),
      browserLaunchCallback = (\<lambda>tr. Inr ())\<rparr>"

definition nothingListening :: browser_env where
  "nothingListening =
     externalChrome\<lparr>fetch := (\<lambda>tr endpoint ms. Inl (Error ''fetch failed'')),
       browser_getActivePage := (\<lambda>tr b. Inl (WithMessage ''Protocol error: Target closed''))\<rparr>"

definition createdEndpoint :: browser_env where
  "createdEndpoint =
     externalChrome\<lparr>fetch := (\<lambda>tr endpoint ms. Inr \<lparr>status = 201, json = Inr JsonNonNull\<rparr>)\<rparr>"


definition defaultManager :: SmartBrowserManager where
  "defaultManager = new_SmartBrowserManager None"


section \<open>Helper lemmas\<close>

lemma startsWith_iff: "startsWith s p \<longleftrightarrow> take (length p) s = p"
  by (induction s p rule: startsWith.induct) auto

lemma startsWith_append: "startsWith s p \<longleftrightarrow> (\<exists>post. s = p @ post)"
proof
  assume "startsWith s p"
  then have "take (length p) s = p" by (simp add: startsWith_iff)
  then have "s = p @ drop (length p) s" by (metis append_take_drop_id)
  then show "\<exists>post. s = p @ post" ..
next
  assume "\<exists>post. s = p @ post"
  then show "startsWith s p" by (auto simp: startsWith_iff)
qed

lemma str_includes_iff: "str_includes s sub \<longleftrightarrow> (\<exists>pre post. s = pre @ sub @ post)"
proof (induction s)
  case Nil
  then show ?case by auto
next
  case (Cons c cs)
  show ?case
  proof
    assume "str_includes (c # cs) sub"
    then consider "startsWith (c # cs) sub" | "str_includes cs sub" by auto
    then show "\<exists>pre post. c # cs = pre @ sub @ post"
    proof cases
      case 1
      then obtain post where "c # cs = sub @ post" by (auto simp: startsWith_append)
      then have "c # cs = [] @ sub @ post" by simp
      then show ?thesis by blast
    next
      case 2
      then obtain pre post where "cs = pre @ sub @ post" using Cons.IH by auto
      then have "c # cs = (c # pre) @ sub @ post" by simp
      then show ?thesis by blast
    qed
  next
    assume "\<exists>pre post. c # cs = pre @ sub @ post"
    then obtain pre post where eq: "c # cs = pre @ sub @ post" by auto
    show "str_includes (c # cs) sub"
    proof (cases pre)
      case Nil
      with eq have "startsWith (c # cs) sub" by (auto simp: startsWith_append)
      then show ?thesis by simp
    next
      case (Cons a pre')
      with eq have "cs = pre' @ sub @ post" by simp
      then have "str_includes cs sub" using Cons.IH by blast
      then show ?thesis by simp
    qed
  qed
qed

section \<open>The tab decision\<close>

text \<open>
  C1 (as amended). \<open>shouldCreateNewTab\<close> is a function of the strategy and its two arguments
  alone. It is false under \<open>always_reuse\<close> and true under \<open>always_new\<close>. Under \<open>smart\<close> it is
  true when the target begins with one of the isolate schemes; otherwise it is true exactly
  when a non-empty current URL is given, both URLs parse, the two host names differ and each
  of them contains some entry of the workspace-domain list -- the same entry will do. A
  missing or empty current URL, a URL that does not parse, equal host names and every other
  case give false.
\<close>

theorem shouldCreateNewTab_policy:
  "shouldCreateNewTab parse m currentUrl targetUrl =
     (case strategy m of
        always_reuse \<Rightarrow> False
      | always_new \<Rightarrow> True
      | smart \<Rightarrow>
          matchesNewTabPattern targetUrl \<or>
          (case currentUrl of
             None \<Rightarrow> False
           | Some cu \<Rightarrow>
               cu \<noteq> [] \<and>
               (case parse cu of
                  None \<Rightarrow> False
                | Some current \<Rightarrow>
                    (case parse targetUrl of
                       None \<Rightarrow> False
                     | Some target \<Rightarrow>
                         hostname current \<noteq> hostname target \<and>
                         isWorkspaceHost (hostname current) \<and>
                         isWorkspaceHost (hostname target)))))"
  by (cases "strategy m")
    (auto simp: shouldCreateNewTab_def matchesNewTabPattern_def isWorkspaceHost_def truthy_def
      str_def Let_def split: option.splits)

lemmas url_eval =
  URL_new_def splitScheme_def schemeChars_def alphaChars_def specialSchemes_def toLowerAscii_def
  Let_def

lemmas tab_policy_eval =
  smartManager_def new_TabSessionManager_def matchesNewTabPattern_def NEW_TAB_PATTERNS_def
  testPrefixCI_def isWorkspaceHost_def WORKSPACE_DOMAINS_def

theorem shouldCreateNewTab_policy_witness:
  "shouldCreateNewTab URL_new smartManager None ''https://mail.google.com'' = False \<and>
   shouldCreateNewTab URL_new smartManager (Some ''https://mail.google.com'')
     ''https://docs.google.com'' = True \<and>
   shouldCreateNewTab URL_new smartManager (Some ''https://a.com'') ''mailto:x@y.com'' = True \<and>
   shouldCreateNewTab URL_new smartManager (Some ''https://a.com/p1'') ''https://a.com/p2'' = False"
  unfolding shouldCreateNewTab_policy
  by (simp add: tab_policy_eval url_eval)

text \<open>
  The claim as worded fails where both hosts contain one and the same entry: from
  \<open>github.com\<close> to \<open>gist.github.com\<close> no two distinct entries match, and the code
  answers true.
\<close>

theorem shouldCreateNewTab_distinct_entries_counterexample:
  "shouldCreateNewTab URL_new smartManager (Some ''https://github.com'')
     ''https://gist.github.com'' = True \<and>
   shouldCreateNewTab_spec URL_new smartManager (Some ''https://github.com'')
     ''https://gist.github.com'' = False"
  by (simp add: shouldCreateNewTab_def shouldCreateNewTab_spec_def matchDistinctEntries_def
      truthy_def str_def tab_policy_eval url_eval)

section \<open>Navigation\<close>

lemma normalizeUrl_has_http_scheme:
  "testPrefixCI ''http://'' (normalizeUrl url) \<or> testPrefixCI ''https://'' (normalizeUrl url)"
  by (simp add: normalizeUrl_def testPrefixCI_def toLowerAscii_def)

lemma normalizeUrl_idem: "normalizeUrl (normalizeUrl url) = normalizeUrl url"
  using normalizeUrl_has_http_scheme [of url] by (simp add: normalizeUrl_def [of "normalizeUrl url"])

text \<open>
  C4 (as amended). \<open>navigateTo\<close> fails with the no-session error, without touching the
  browser, if and only if no session page is held. With a session page \<open>p\<close> it makes exactly
  one call, \<open>p.goto\<close> on the normalised URL with \<open>networkidle2\<close> and a timeout of 30000 ms; the
  normalised URL is the input itself when the input begins with \<open>http://\<close> or \<open>https://\<close> in any
  letter case, and \<open>https://\<close> followed by the input otherwise (also when the input names
  another scheme). When \<open>goto\<close> resolves, the normalised URL becomes the last navigated URL;
  when it rejects, the rejection is passed on and the state is as before.
\<close>

theorem navigateTo_contract:
  "((\<exists>m'. navigateTo E url m tr = (Inl noSessionPageError, m', tr)) \<longleftrightarrow> sessionPage m = None) \<and>
   (sessionPage m = None \<longrightarrow> navigateTo E url m tr = (Inl noSessionPageError, m, tr)) \<and>
   normalizeUrl url =
     (if testPrefixCI ''http://'' url \<or> testPrefixCI ''https://'' url then url else ''https://'' @ url) \<and>
   (\<forall>p. sessionPage m = Some p \<longrightarrow>
      snd (snd (navigateTo E url m tr)) = tr @ [Goto p (normalizeUrl url) networkidle2_30s] \<and>
      (page_goto E tr p (normalizeUrl url) networkidle2_30s = Inr () \<longrightarrow>
         navigateTo E url m tr =
           (Inr (), m\<lparr>lastNavigatedUrl := Some (normalizeUrl url)\<rparr>,
            tr @ [Goto p (normalizeUrl url) networkidle2_30s])) \<and>
      (\<forall>e. page_goto E tr p (normalizeUrl url) networkidle2_30s = Inl e \<longrightarrow>
         navigateTo E url m tr = (Inl e, m, tr @ [Goto p (normalizeUrl url) networkidle2_30s])))"
proof -
  have iff: "(\<exists>m'. navigateTo E url m tr = (Inl noSessionPageError, m', tr)) \<longleftrightarrow> sessionPage m = None"
    by (cases "sessionPage m") (auto simp: navigateTo_def Let_def split: sum.splits)
  have none: "sessionPage m = None \<longrightarrow> navigateTo E url m tr = (Inl noSessionPageError, m, tr)"
    by (simp add: navigateTo_def)
  have norm: "normalizeUrl url =
     (if testPrefixCI ''http://'' url \<or> testPrefixCI ''https://'' url then url else ''https://'' @ url)"
    by (simp add: normalizeUrl_def)
  have held: "\<forall>p. sessionPage m = Some p \<longrightarrow>
      snd (snd (navigateTo E url m tr)) = tr @ [Goto p (normalizeUrl url) networkidle2_30s] \<and>
      (page_goto E tr p (normalizeUrl url) networkidle2_30s = Inr () \<longrightarrow>
         navigateTo E url m tr =
           (Inr (), m\<lparr>lastNavigatedUrl := Some (normalizeUrl url)\<rparr>,
            tr @ [Goto p (normalizeUrl url) networkidle2_30s])) \<and>
      (\<forall>e. page_goto E tr p (normalizeUrl url) networkidle2_30s = Inl e \<longrightarrow>
         navigateTo E url m tr = (Inl e, m, tr @ [Goto p (normalizeUrl url) networkidle2_30s]))"
    by (auto simp: navigateTo_def networkidle2_30s_def Let_def split: sum.splits)
  from iff none norm held show ?thesis by blast
qed

lemmas tab_env_eval = emptyBrowser_def pagesCreated_def

theorem navigateTo_contract_witness:
  "navigateTo emptyBrowser ''example.com'' (smartManager\<lparr>sessionPage := Some 1\<rparr>) [] =
     (Inr (), smartManager\<lparr>sessionPage := Some 1, lastNavigatedUrl := Some ''https://example.com''\<rparr>,
      [Goto 1 ''https://example.com'' networkidle2_30s]) \<and>
   navigateTo emptyBrowser ''example.com'' smartManager [] = (Inl noSessionPageError, smartManager, [])"
proof -
  have n: "normalizeUrl ''example.com'' = ''https://example.com''"
    by (simp add: normalizeUrl_def testPrefixCI_def toLowerAscii_def)
  have g: "page_goto emptyBrowser [] 1 (normalizeUrl ''example.com'') networkidle2_30s = Inr ()"
    by (simp add: emptyBrowser_def)
  have s: "sessionPage (smartManager\<lparr>sessionPage := Some 1\<rparr>) = Some 1" by simp
  have z: "sessionPage smartManager = None" by (simp add: smartManager_def new_TabSessionManager_def)
  from navigateTo_contract [of emptyBrowser "''example.com''" "smartManager\<lparr>sessionPage := Some 1\<rparr>" "[]"] s g
  have 1: "navigateTo emptyBrowser ''example.com'' (smartManager\<lparr>sessionPage := Some 1\<rparr>) [] =
     (Inr (), smartManager\<lparr>sessionPage := Some 1, lastNavigatedUrl := Some (normalizeUrl ''example.com'')\<rparr>,
      [] @ [Goto 1 (normalizeUrl ''example.com'') networkidle2_30s])"
    by blast
  from navigateTo_contract [of emptyBrowser "''example.com''" smartManager "[]"] z
  have 2: "navigateTo emptyBrowser ''example.com'' smartManager [] = (Inl noSessionPageError, smartManager, [])"
    by blast
  from 1 2 n show ?thesis by simp
qed

text \<open>
  The claim as worded fails on an input that names a scheme other than \<open>http\<close> or
  \<open>https\<close>: \<open>ftp://a.com\<close> gives a scheme and is prefixed all the same.
\<close>

theorem normalizeUrl_scheme_counterexample:
  "hasScheme ''ftp://a.com'' \<and>
   normalizeUrl_spec ''ftp://a.com'' = ''ftp://a.com'' \<and>
   normalizeUrl ''ftp://a.com'' = ''https://ftp://a.com''"
  by (simp add: hasScheme_def normalizeUrl_spec_def normalizeUrl_def testPrefixCI_def
      splitScheme_def schemeChars_def alphaChars_def toLowerAscii_def)

section \<open>Explicit new tabs\<close>

text \<open>
  C9. When \<open>requestNewTab\<close> goes on to create a tab -- no callback is configured, or the
  callback approves -- and the page is created and loaded, the new page becomes the session
  page and the last navigated URL is the argument as passed, while the page was sent to the
  normalised URL (with no timeout option, unlike \<open>navigateTo\<close>). When the callback denies and
  no session page is held, the call fails with the no-session error of \<open>navigateTo\<close>.
\<close>

theorem requestNewTab_contract:
  "(\<forall>tr1 newPage.
      (\<not> onNewTabRequest m \<and> tr1 = tr \<or>
       onNewTabRequest m \<and> newTabCallback E tr url = Inr True \<and> tr1 = tr @ [OnNewTabRequest url]) \<and>
      createPage E tr1 = Inr newPage \<and>
      page_goto E (tr1 @ [CreatePage]) newPage (normalizeUrl url) networkidle2 = Inr ()
      \<longrightarrow>
      requestNewTab E url m tr =
        (Inr (Some newPage), m\<lparr>sessionPage := Some newPage, lastNavigatedUrl := Some url\<rparr>,
         tr1 @ [CreatePage, Goto newPage (normalizeUrl url) networkidle2])) \<and>
   (onNewTabRequest m \<and> newTabCallback E tr url = Inr False \<and> sessionPage m = None \<longrightarrow>
      requestNewTab E url m tr = (Inl noSessionPageError, m, tr @ [OnNewTabRequest url]))"
  by (auto simp: requestNewTab_def networkidle2_def navigateAndReturn_def navigateTo_def Let_def)

theorem requestNewTab_contract_witness:
  "requestNewTab emptyBrowser ''example.com'' smartManager [] =
     (Inr (Some 1), smartManager\<lparr>sessionPage := Some 1, lastNavigatedUrl := Some ''example.com''\<rparr>,
      [CreatePage, Goto 1 ''https://example.com'' networkidle2]) \<and>
   requestNewTab emptyBrowser ''denied.example'' confirmingManager [] =
     (Inl noSessionPageError, confirmingManager, [OnNewTabRequest ''denied.example''])"
proof -
  have n: "normalizeUrl ''example.com'' = ''https://example.com''"
    by (simp add: normalizeUrl_def testPrefixCI_def toLowerAscii_def)
  have a: "\<not> onNewTabRequest smartManager \<and> [] = ([] :: tab_event list)"
    by (simp add: smartManager_def new_TabSessionManager_def)
  have c: "createPage emptyBrowser [] = Inr 1" by (simp add: tab_env_eval)
  have g: "page_goto emptyBrowser ([] @ [CreatePage]) 1 (normalizeUrl ''example.com'') networkidle2 = Inr ()"
    by (simp add: tab_env_eval)
  have d: "onNewTabRequest confirmingManager \<and>
      newTabCallback emptyBrowser [] ''denied.example'' = Inr False \<and>
      sessionPage confirmingManager = None"
    by (simp add: confirmingManager_def new_TabSessionManager_def tab_env_eval)
  from requestNewTab_contract [of smartManager "[]" emptyBrowser "''example.com''"] a c g
  have 1: "requestNewTab emptyBrowser ''example.com'' smartManager [] =
        (Inr (Some 1), smartManager\<lparr>sessionPage := Some 1, lastNavigatedUrl := Some ''example.com''\<rparr>,
         [] @ [CreatePage, Goto 1 (normalizeUrl ''example.com'') networkidle2])"
    by blast
  from requestNewTab_contract [of confirmingManager "[]" emptyBrowser "''denied.example''"] d
  have 2: "requestNewTab emptyBrowser ''denied.example'' confirmingManager [] =
     (Inl noSessionPageError, confirmingManager, [] @ [OnNewTabRequest ''denied.example''])"
    by blast
  from 1 2 n show ?thesis by simp
qed

section \<open>The session page\<close>

lemmas session_eval =
  getOrCreateSessionPage_def isSessionPageValid_def findReusablePage_def navigateAndReturn_def
  navigateTo_def shouldNavigateToUrl_def truthy_def str_def networkidle2_30s_def smartManager_def
  new_TabSessionManager_def

text \<open>
  C3, evaluated. On a fresh manager and a browser with no tab, the first
  \<open>getOrCreateSessionPage("example.com")\<close> creates one page and loads \<open>https://example.com\<close>
  in it. The second call with the same string probes the page and loads the URL again:
  the last navigated URL holds the normalised form, the request is compared as given,
  \<open>new URL("example.com")\<close> throws, and the handler answers that navigation is needed.
\<close>

theorem getOrCreateSessionPage_navigates_again:
  "getOrCreateSessionPage URL_new emptyBrowser (Some ''example.com'') smartManager [] =
     (Inr (Some 1),
      smartManager\<lparr>sessionPage := Some 1, lastNavigatedUrl := Some ''https://example.com''\<rparr>,
      [GetActivePage, CreatePage, Goto 1 ''https://example.com'' networkidle2_30s]) \<and>
   getOrCreateSessionPage URL_new emptyBrowser (Some ''example.com'')
     (smartManager\<lparr>sessionPage := Some 1, lastNavigatedUrl := Some ''https://example.com''\<rparr>)
     [GetActivePage, CreatePage, Goto 1 ''https://example.com'' networkidle2_30s] =
     (Inr (Some 1),
      smartManager\<lparr>sessionPage := Some 1, lastNavigatedUrl := Some ''https://example.com''\<rparr>,
      [GetActivePage, CreatePage, Goto 1 ''https://example.com'' networkidle2_30s,
       Evaluate 1, Goto 1 ''https://example.com'' networkidle2_30s])"
  by (simp add: session_eval tab_env_eval normalizeUrl_def testPrefixCI_def url_eval)

text \<open>
  With the absolute URL the comparison by origin and path works: the second call only
  probes the page.
\<close>

lemma getOrCreateSessionPage_absolute_url_once:
  "getOrCreateSessionPage URL_new emptyBrowser (Some ''https://example.com'')
     (smartManager\<lparr>sessionPage := Some 1, lastNavigatedUrl := Some ''https://example.com''\<rparr>)
     [GetActivePage, CreatePage, Goto 1 ''https://example.com'' networkidle2_30s] =
     (Inr (Some 1),
      smartManager\<lparr>sessionPage := Some 1, lastNavigatedUrl := Some ''https://example.com''\<rparr>,
      [GetActivePage, CreatePage, Goto 1 ''https://example.com'' networkidle2_30s, Evaluate 1])"
  by (simp add: session_eval tab_env_eval normalizeUrl_def testPrefixCI_def url_eval)

text \<open>
  The repetition is not special to one string: whenever the request does not parse as it
  stands, a valid session page is navigated, whatever was loaded last.
\<close>

lemma getOrCreateSessionPage_unparsed_request_navigates:
  assumes "sessionPage m = Some p" and "page_evaluate E tr p = Inr ()"
    and "url \<noteq> []" and "parse url = None"
  shows "getOrCreateSessionPage parse E (Some url) m tr = navigateAndReturn E url m (tr @ [Evaluate p])"
  using assms
  by (simp add: getOrCreateSessionPage_def isSessionPageValid_def shouldNavigateToUrl_def truthy_def
      str_def split: option.splits)

text \<open>
  With a session page held, \<open>cleanup\<close> calls \<open>close\<close> on it once, clears both fields whether
  \<open>close\<close> resolved or rejected, and throws nothing; with none held it returns at once.
\<close>

lemma cleanup_with_page:
  "sessionPage m = Some p \<Longrightarrow>
     cleanup E m tr =
       (Inr (), m\<lparr>sessionPage := None, lastNavigatedUrl := None\<rparr>, tr @ [PageClose p])"
  by (simp add: cleanup_def split: sum.splits)

lemma cleanup_without_page: "sessionPage m = None \<Longrightarrow> cleanup E m tr = (Inr (), m, tr)"
  by (simp add: cleanup_def)

lemma cleanup_never_throws:
  "fst (cleanup E m tr) = Inr () \<and> getSessionPage (fst (snd (cleanup E m tr))) = None"
  by (cases "sessionPage m") (simp_all add: cleanup_def getSessionPage_def split: sum.splits)

text \<open>
  C8, evaluated. The page of a session dies; \<open>getCurrentUrl\<close> notices and drops the page but
  keeps the last navigated URL; \<open>cleanup\<close> then finds no page and returns without clearing
  anything. The stale URL outlives the cleanup: the next session page is created blank, and
  a request for the old URL is taken for a repetition and never loaded.
\<close>

theorem cleanup_keeps_stale_url:
  "getOrCreateSessionPage URL_new firstPageDies (Some ''https://a.com'') smartManager [] =
     (Inr (Some 1), smartManager\<lparr>sessionPage := Some 1, lastNavigatedUrl := Some ''https://a.com''\<rparr>,
      [GetActivePage, CreatePage, Goto 1 ''https://a.com'' networkidle2_30s]) \<and>
   getCurrentUrl firstPageDies
     (smartManager\<lparr>sessionPage := Some 1, lastNavigatedUrl := Some ''https://a.com''\<rparr>)
     [GetActivePage, CreatePage, Goto 1 ''https://a.com'' networkidle2_30s] =
     (None, smartManager\<lparr>lastNavigatedUrl := Some ''https://a.com''\<rparr>,
      [GetActivePage, CreatePage, Goto 1 ''https://a.com'' networkidle2_30s, Evaluate 1]) \<and>
   cleanup firstPageDies (smartManager\<lparr>lastNavigatedUrl := Some ''https://a.com''\<rparr>)
     [GetActivePage, CreatePage, Goto 1 ''https://a.com'' networkidle2_30s, Evaluate 1] =
     (Inr (), smartManager\<lparr>lastNavigatedUrl := Some ''https://a.com''\<rparr>,
      [GetActivePage, CreatePage, Goto 1 ''https://a.com'' networkidle2_30s, Evaluate 1]) \<and>
   lastNavigatedUrl (smartManager\<lparr>lastNavigatedUrl := Some ''https://a.com''\<rparr>) \<noteq> None \<and>
   getOrCreateSessionPage URL_new firstPageDies None
     (smartManager\<lparr>lastNavigatedUrl := Some ''https://a.com''\<rparr>)
     [GetActivePage, CreatePage, Goto 1 ''https://a.com'' networkidle2_30s, Evaluate 1] =
     (Inr (Some 2), smartManager\<lparr>sessionPage := Some 2, lastNavigatedUrl := Some ''https://a.com''\<rparr>,
      [GetActivePage, CreatePage, Goto 1 ''https://a.com'' networkidle2_30s, Evaluate 1,
       GetActivePage, CreatePage]) \<and>
   getOrCreateSessionPage URL_new firstPageDies (Some ''https://a.com'')
     (smartManager\<lparr>sessionPage := Some 2, lastNavigatedUrl := Some ''https://a.com''\<rparr>)
     [GetActivePage, CreatePage, Goto 1 ''https://a.com'' networkidle2_30s, Evaluate 1,
      GetActivePage, CreatePage] =
     (Inr (Some 2), smartManager\<lparr>sessionPage := Some 2, lastNavigatedUrl := Some ''https://a.com''\<rparr>,
      [GetActivePage, CreatePage, Goto 1 ''https://a.com'' networkidle2_30s, Evaluate 1,
       GetActivePage, CreatePage, Evaluate 2])"
  by (simp add: session_eval getCurrentUrl_def cleanup_def firstPageDies_def tab_env_eval
      normalizeUrl_def testPrefixCI_def url_eval)

section \<open>Probes of the browser manager\<close>



lemmas browser_env_eval = externalChrome_def nothingListening_def



text \<open>
  C7 (as amended). The port probe never throws and leaves the manager as it was. It answers
  false when \<open>fetch\<close> rejects (connection refused, or aborted after 1000 ms), when the status is
  outside 200..299, and when the body is not JSON; it answers true exactly when \<open>fetch\<close>
  resolves with a status in 200..299 and the body parses to a JSON value other than \<open>null\<close>.
\<close>

theorem isDebugPortActive_contract:
  "fst (snd (isDebugPortActive E m tr)) = m \<and>
   (\<exists>answer. fst (isDebugPortActive E m tr) = Inr answer) \<and>
   (\<forall>e. fetch E tr (versionEndpoint (debugPort m)) 1000 = Inl e \<longrightarrow>
      fst (isDebugPortActive E m tr) = Inr False) \<and>
   (\<forall>response. fetch E tr (versionEndpoint (debugPort m)) 1000 = Inr response \<and>
      \<not> (200 \<le> status response \<and> status response \<le> 299) \<longrightarrow>
      fst (isDebugPortActive E m tr) = Inr False) \<and>
   (\<forall>response e. fetch E tr (versionEndpoint (debugPort m)) 1000 = Inr response \<and>
      json response = Inl e \<longrightarrow>
      fst (isDebugPortActive E m tr) = Inr False) \<and>
   (fst (isDebugPortActive E m tr) = Inr True \<longleftrightarrow>
      (\<exists>response. fetch E tr (versionEndpoint (debugPort m)) 1000 = Inr response \<and>
         200 \<le> status response \<and> status response \<le> 299 \<and> json response = Inr JsonNonNull))"
  by (auto simp: isDebugPortActive_def ok_def Let_def split: sum.splits json_value.splits)

theorem isDebugPortActive_contract_witness:
  "fst (isDebugPortActive externalChrome defaultManager []) = Inr True \<and>
   fst (isDebugPortActive nothingListening defaultManager []) = Inr False"
proof -
  have 1: "fetch externalChrome [] (versionEndpoint (debugPort defaultManager)) 1000 =
      Inr \<lparr>status = 200, json = Inr JsonNonNull\<rparr>"
    by (simp add: browser_env_eval)
  have 2: "fetch nothingListening [] (versionEndpoint (debugPort defaultManager)) 1000 =
      Inl (Error ''fetch failed'')"
    by (simp add: browser_env_eval)
  from isDebugPortActive_contract [of externalChrome defaultManager "[]"] 1
  have a: "fst (isDebugPortActive externalChrome defaultManager []) = Inr True" by simp
  from isDebugPortActive_contract [of nothingListening defaultManager "[]"] 2
  have b: "fst (isDebugPortActive nothingListening defaultManager []) = Inr False" by blast
  from a b show ?thesis by simp
qed

text \<open>
  The claim as worded fails on a success status other than 200: the code reads
  \<open>response.ok\<close>, and an endpoint that answers 201 with a JSON body counts as active.
\<close>

theorem isDebugPortActive_status_counterexample:
  "fst (isDebugPortActive createdEndpoint defaultManager []) = Inr True \<and>
   isDebugPortActive_spec createdEndpoint defaultManager [] = False"
  by (simp add: isDebugPortActive_def isDebugPortActive_spec_def ok_def createdEndpoint_def
      externalChrome_def)

section \<open>Closing the browser\<close>

text \<open>
  C5. \<open>closeBrowser\<close> never throws. With no handle it does nothing. With an external handle
  and no force it forgets the handle and calls nothing. With a handle of its own, in
  persistent mode and without force, it changes nothing and calls nothing. In every other
  case it calls \<open>close\<close> on the handle once and forgets the handle, whether \<open>close\<close> resolved or
  rejected.
\<close>

theorem closeBrowser_contract:
  "fst (closeBrowser E force m tr) = Inr () \<and>
   (browser m = None \<longrightarrow> closeBrowser E force m tr = (Inr (), m, tr)) \<and>
   (\<forall>b. browser m = Some b \<and> isConnectedToExternal m \<and> \<not> force \<longrightarrow>
      closeBrowser E force m tr =
        (Inr (), m\<lparr>browser := None, isConnectedToExternal := False\<rparr>, tr)) \<and>
   (\<forall>b. browser m = Some b \<and> \<not> isConnectedToExternal m \<and> persistentMode m \<and> \<not> force \<longrightarrow>
      closeBrowser E force m tr = (Inr (), m, tr)) \<and>
   (\<forall>b. browser m = Some b \<and> (force \<or> \<not> isConnectedToExternal m \<and> \<not> persistentMode m) \<longrightarrow>
      closeBrowser E force m tr =
        (Inr (), m\<lparr>browser := None, isConnectedToExternal := False\<rparr>, tr @ [BrowserClose b]))"
  by (auto simp: closeBrowser_def split: sum.splits option.splits)

theorem closeBrowser_contract_witness:
  "closeBrowser externalChrome False
     (defaultManager\<lparr>browser := Some (RemoteBrowser 2), isConnectedToExternal := True\<rparr>) [] =
     (Inr (), defaultManager, []) \<and>
   closeBrowser externalChrome True
     (defaultManager\<lparr>browser := Some (RemoteBrowser 2), isConnectedToExternal := True\<rparr>) [] =
     (Inr (), defaultManager, [BrowserClose (RemoteBrowser 2)]) \<and>
   closeBrowser externalChrome False (defaultManager\<lparr>browser := Some (LocalBrowser 1)\<rparr>) [] =
     (Inr (), defaultManager\<lparr>browser := Some (LocalBrowser 1)\<rparr>, [])"
proof -
  have d: "browser defaultManager = None \<and> \<not> isConnectedToExternal defaultManager \<and>
      persistentMode defaultManager"
    by (simp add: defaultManager_def new_SmartBrowserManager_def emptyConfig_def)
  have e: "defaultManager\<lparr>browser := Some (RemoteBrowser 2), isConnectedToExternal := True\<rparr>
      \<lparr>browser := None, isConnectedToExternal := False\<rparr> = defaultManager"
    using d by simp
  from closeBrowser_contract [of externalChrome False
      "defaultManager\<lparr>browser := Some (RemoteBrowser 2), isConnectedToExternal := True\<rparr>" "[]"] e
  have 1: "closeBrowser externalChrome False
     (defaultManager\<lparr>browser := Some (RemoteBrowser 2), isConnectedToExternal := True\<rparr>) [] =
     (Inr (), defaultManager, [])"
    by simp
  from closeBrowser_contract [of externalChrome True
      "defaultManager\<lparr>browser := Some (RemoteBrowser 2), isConnectedToExternal := True\<rparr>" "[]"] e
  have 2: "closeBrowser externalChrome True
     (defaultManager\<lparr>browser := Some (RemoteBrowser 2), isConnectedToExternal := True\<rparr>) [] =
     (Inr (), defaultManager, [BrowserClose (RemoteBrowser 2)])"
    by simp
  from closeBrowser_contract [of externalChrome False
      "defaultManager\<lparr>browser := Some (LocalBrowser 1)\<rparr>" "[]"] d
  have 3: "closeBrowser externalChrome False (defaultManager\<lparr>browser := Some (LocalBrowser 1)\<rparr>) [] =
     (Inr (), defaultManager\<lparr>browser := Some (LocalBrowser 1)\<rparr>, [])"
    by simp
  from 1 2 3 show ?thesis by simp
qed

section \<open>Acquiring a browser\<close>

lemma isDebugPortActive_shape:
  "\<exists>answer tr0. isDebugPortActive E m tr = (Inr answer, m, tr0)"
  by (auto simp: isDebugPortActive_def Let_def split: sum.splits json_value.splits)

lemma getOrCreateBrowser_unfold:
  assumes "isDebugPortActive E m tr = (Inr active, m, tr0)"
  shows "getOrCreateBrowser E m tr =
     (case heldFor m active of
        None \<Rightarrow> acquire E active m tr0
      | Some h \<Rightarrow>
          (case isBrowserAlive E h tr0 of
             (Inl e, t1) \<Rightarrow> (Inl e, m, t1)
           | (Inr alive, t1) \<Rightarrow>
               if alive then (Inr \<lparr>result_browser = h, mode = reused, isNewInstance = False\<rparr>, m, t1)
               else acquire E active m t1))"
proof (cases "browser m")
  case None
  with assms show ?thesis
    by (cases active)
      (simp_all add: getOrCreateBrowser_def heldFor_def acquire_def tagged_def notifyAndLaunch_def
        forgetOwnHandle_def cong: sum.case_cong)
next
  case (Some held)
  obtain res t1 where a: "isBrowserAlive E held tr0 = (res, t1)"
    by (cases "isBrowserAlive E held tr0")
  show ?thesis
  proof (cases res)
    case (Inl e)
    with assms Some a show ?thesis
      by (cases active; cases "isConnectedToExternal m")
        (simp_all add: getOrCreateBrowser_def heldFor_def acquire_def tagged_def
          notifyAndLaunch_def forgetOwnHandle_def cong: sum.case_cong)
  next
    case (Inr alive)
    with assms Some a show ?thesis
      by (cases active; cases alive; cases "isConnectedToExternal m")
        (simp_all add: getOrCreateBrowser_def heldFor_def acquire_def tagged_def
          notifyAndLaunch_def forgetOwnHandle_def cong: sum.case_cong)
  qed
qed













section \<open>The singleton\<close>

lemma connectToExisting_configOf:
  "configOf (fst (snd (connectToExisting E m t))) = configOf m"
  by (auto simp: connectToExisting_def configOf_def Let_def split: sum.splits)

lemma launchWithDebugPort_configOf:
  "configOf (fst (snd (launchWithDebugPort E m t))) = configOf m"
  by (auto simp: launchWithDebugPort_def configOf_def Let_def split: sum.splits)

lemma tagged_state: "fst (snd (tagged md out)) = fst (snd out)"
  by (auto simp: tagged_def split: prod.splits sum.splits)

lemma forgetOwnHandle_configOf: "configOf (forgetOwnHandle m) = configOf m"
  by (simp add: forgetOwnHandle_def configOf_def)

lemma notifyAndLaunch_configOf:
  "configOf (fst (snd (notifyAndLaunch E m t))) = configOf m"
  by (auto simp: notifyAndLaunch_def tagged_state launchWithDebugPort_configOf split: sum.splits)

lemma acquire_configOf: "configOf (fst (snd (acquire E active m t))) = configOf m"
  by (simp add: acquire_def tagged_state connectToExisting_configOf notifyAndLaunch_configOf
      forgetOwnHandle_configOf)

lemma getOrCreateBrowser_configOf:
  "configOf (fst (snd (getOrCreateBrowser E m tr))) = configOf m"
proof -
  obtain active tr0 where p: "isDebugPortActive E m tr = (Inr active, m, tr0)"
    using isDebugPortActive_shape by blast
  show ?thesis
  proof (cases "heldFor m active")
    case None
    with getOrCreateBrowser_unfold [OF p] show ?thesis by (simp add: acquire_configOf)
  next
    case (Some h)
    obtain res t1 where a: "isBrowserAlive E h tr0 = (res, t1)"
      by (cases "isBrowserAlive E h tr0")
    with getOrCreateBrowser_unfold [OF p] Some show ?thesis
      by (cases res) (simp_all add: acquire_configOf)
  qed
qed

lemma closeBrowser_configOf:
  "configOf (fst (snd (closeBrowser E force m tr))) = configOf m"
  by (auto simp: closeBrowser_def configOf_def split: option.splits sum.splits)

lemma disconnect_configOf: "configOf (disconnect m) = configOf m"
  by (simp add: disconnect_def configOf_def)

lemma updateObject_keeps_singleton:
  assumes "singletonHolds r cfg c" and "r' < length (objects c)"
    and "configOf m' = configOf (objects c ! r')"
  shows "singletonHolds r cfg (updateObject r' m' c)"
  using assms by (cases "r' = r") (auto simp: singletonHolds_def updateObject_def)

lemma class_step_keeps_singleton:
  assumes "singletonHolds r cfg c" and "operation \<noteq> ResetInstance"
  shows "singletonHolds r cfg (fst (class_step E (c, tr) operation))"
proof (cases operation)
  case (GetInstance config)
  with assms show ?thesis by (simp add: getInstance_def singletonHolds_def)
next
  case ResetInstance
  with assms show ?thesis by simp
next
  case (GetOrCreateBrowser r')
  show ?thesis
  proof (cases "r' < length (objects c)")
    case True
    obtain res m' tr' where g: "getOrCreateBrowser E (objects c ! r') tr = (res, m', tr')"
      by (cases "getOrCreateBrowser E (objects c ! r') tr") auto
    then have "configOf m' = configOf (objects c ! r')"
      using getOrCreateBrowser_configOf [of E "objects c ! r'" tr] by simp
    with assms True g GetOrCreateBrowser show ?thesis
      by (simp add: updateObject_keeps_singleton)
  next
    case False
    with assms GetOrCreateBrowser show ?thesis by simp
  qed
next
  case (CloseBrowser r' force)
  show ?thesis
  proof (cases "r' < length (objects c)")
    case True
    obtain res m' tr' where g: "closeBrowser E force (objects c ! r') tr = (res, m', tr')"
      by (cases "closeBrowser E force (objects c ! r') tr") auto
    then have "configOf m' = configOf (objects c ! r')"
      using closeBrowser_configOf [of E force "objects c ! r'" tr] by simp
    with assms True g CloseBrowser show ?thesis
      by (simp add: updateObject_keeps_singleton)
  next
    case False
    with assms CloseBrowser show ?thesis by simp
  qed
next
  case (Disconnect r')
  with assms show ?thesis
    by (simp add: updateObject_keeps_singleton disconnect_configOf)
qed

lemma run_class_keeps_singleton:
  assumes "singletonHolds r cfg c" and "ResetInstance \<notin> set ops"
  shows "singletonHolds r cfg (fst (run_class E (c, tr) ops))"
  using assms
proof (induction ops arbitrary: c tr)
  case Nil
  then show ?case by (simp add: run_class_def)
next
  case (Cons operation ops)
  obtain c' tr' where st: "class_step E (c, tr) operation = (c', tr')"
    by (cases "class_step E (c, tr) operation")
  from Cons.prems have "singletonHolds r cfg (fst (class_step E (c, tr) operation))"
    by (intro class_step_keeps_singleton) auto
  with st have "singletonHolds r cfg c'" by simp
  moreover from Cons.prems have "ResetInstance \<notin> set ops" by simp
  ultimately have "singletonHolds r cfg (fst (run_class E (c', tr') ops))"
    by (rule Cons.IH)
  with st show ?case by (simp add: run_class_def)
qed

text \<open>
  C10. A second \<open>getInstance\<close> returns the reference the first one returned and changes
  nothing, whatever configuration it is given. When the first call constructed the object
  (no instance was held), then after any calls on the class and its objects other than
  \<open>resetInstance\<close>, \<open>getInstance\<close> still returns that reference, and the object's read-only
  fields are those the first configuration fixed. After \<open>resetInstance\<close>, \<open>getInstance\<close>
  constructs a new object, distinct from the old one, from the configuration it is given.
\<close>

theorem getInstance_singleton:
  "getInstance config2 (snd (getInstance config1 c)) =
     (fst (getInstance config1 c), snd (getInstance config1 c)) \<and>
   (instance_ref c = None \<and> ResetInstance \<notin> set ops \<and> getInstance config1 c = (r1, c1) \<and>
    run_class E (c1, tr) ops = (c2, tr2) \<longrightarrow>
      r1 = length (objects c) \<and>
      objects c1 ! r1 = new_SmartBrowserManager config1 \<and>
      getInstance config2 c2 = (r1, c2) \<and>
      r1 < length (objects c2) \<and>
      configOf (objects c2 ! r1) = configOf (new_SmartBrowserManager config1) \<and>
      fst (getInstance config3 (resetInstance c2)) = length (objects c2) \<and>
      fst (getInstance config3 (resetInstance c2)) \<noteq> r1 \<and>
      instance_ref (snd (getInstance config3 (resetInstance c2))) = Some (length (objects c2)) \<and>
      objects (snd (getInstance config3 (resetInstance c2))) ! length (objects c2) =
        new_SmartBrowserManager config3 \<and>
      objects (snd (getInstance config3 (resetInstance c2))) ! r1 = objects c2 ! r1)"
proof -
  have again: "getInstance config2 (snd (getInstance config1 c)) =
     (fst (getInstance config1 c), snd (getInstance config1 c))"
    by (cases "instance_ref c") (simp_all add: getInstance_def)
  have run: "instance_ref c = None \<and> ResetInstance \<notin> set ops \<and> getInstance config1 c = (r1, c1) \<and>
    run_class E (c1, tr) ops = (c2, tr2) \<longrightarrow>
      r1 = length (objects c) \<and>
      objects c1 ! r1 = new_SmartBrowserManager config1 \<and>
      getInstance config2 c2 = (r1, c2) \<and>
      r1 < length (objects c2) \<and>
      configOf (objects c2 ! r1) = configOf (new_SmartBrowserManager config1) \<and>
      fst (getInstance config3 (resetInstance c2)) = length (objects c2) \<and>
      fst (getInstance config3 (resetInstance c2)) \<noteq> r1 \<and>
      instance_ref (snd (getInstance config3 (resetInstance c2))) = Some (length (objects c2)) \<and>
      objects (snd (getInstance config3 (resetInstance c2))) ! length (objects c2) =
        new_SmartBrowserManager config3 \<and>
      objects (snd (getInstance config3 (resetInstance c2))) ! r1 = objects c2 ! r1"
  proof
    assume a: "instance_ref c = None \<and> ResetInstance \<notin> set ops \<and> getInstance config1 c = (r1, c1) \<and>
      run_class E (c1, tr) ops = (c2, tr2)"
    then have r1: "r1 = length (objects c)"
      and c1: "c1 = c\<lparr>instance_ref := Some (length (objects c)),
          objects := objects c @ [new_SmartBrowserManager config1]\<rparr>"
      by (auto simp: getInstance_def)
    have obj: "objects c1 ! r1 = new_SmartBrowserManager config1"
      by (simp add: r1 c1)
    have "singletonHolds r1 (configOf (new_SmartBrowserManager config1)) c1"
      by (simp add: singletonHolds_def r1 c1)
    with a have "singletonHolds r1 (configOf (new_SmartBrowserManager config1))
        (fst (run_class E (c1, tr) ops))"
      by (intro run_class_keeps_singleton) auto
    with a have inv: "singletonHolds r1 (configOf (new_SmartBrowserManager config1)) c2"
      by simp
    then have ref: "instance_ref c2 = Some r1" and less: "r1 < length (objects c2)"
      and cfg: "configOf (objects c2 ! r1) = configOf (new_SmartBrowserManager config1)"
      by (simp_all add: singletonHolds_def)
    from ref have same: "getInstance config2 c2 = (r1, c2)"
      by (simp add: getInstance_def)
    have fresh: "fst (getInstance config3 (resetInstance c2)) = length (objects c2)"
      and held: "instance_ref (snd (getInstance config3 (resetInstance c2))) = Some (length (objects c2))"
      and new: "objects (snd (getInstance config3 (resetInstance c2))) ! length (objects c2) =
        new_SmartBrowserManager config3"
      by (simp_all add: getInstance_def resetInstance_def)
    have old: "objects (snd (getInstance config3 (resetInstance c2))) ! r1 = objects c2 ! r1"
      using less by (simp add: getInstance_def resetInstance_def nth_append)
    from fresh less have other: "fst (getInstance config3 (resetInstance c2)) \<noteq> r1" by simp
    from r1 obj same less cfg fresh other held new old
    show "r1 = length (objects c) \<and>
      objects c1 ! r1 = new_SmartBrowserManager config1 \<and>
      getInstance config2 c2 = (r1, c2) \<and>
      r1 < length (objects c2) \<and>
      configOf (objects c2 ! r1) = configOf (new_SmartBrowserManager config1) \<and>
      fst (getInstance config3 (resetInstance c2)) = length (objects c2) \<and>
      fst (getInstance config3 (resetInstance c2)) \<noteq> r1 \<and>
      instance_ref (snd (getInstance config3 (resetInstance c2))) = Some (length (objects c2)) \<and>
      objects (snd (getInstance config3 (resetInstance c2))) ! length (objects c2) =
        new_SmartBrowserManager config3 \<and>
      objects (snd (getInstance config3 (resetInstance c2))) ! r1 = objects c2 ! r1"
      by (intro conjI)
  qed
  from again run show ?thesis by (rule conjI)
qed

theorem getInstance_singleton_witness:
  "getInstance None
     (fst (run_class externalChrome (snd (getInstance (Some port9333) noInstance), [])
        [GetOrCreateBrowser 0, GetInstance None, CloseBrowser 0 True])) =
     (0, fst (run_class externalChrome (snd (getInstance (Some port9333) noInstance), [])
        [GetOrCreateBrowser 0, GetInstance None, CloseBrowser 0 True])) \<and>
   debugPort (objects (fst (run_class externalChrome (snd (getInstance (Some port9333) noInstance), [])
        [GetOrCreateBrowser 0, GetInstance None, CloseBrowser 0 True])) ! 0) = 9333 \<and>
   debugPort (new_SmartBrowserManager None) = 9222"
proof -
  let ?ops = "[GetOrCreateBrowser 0, GetInstance None, CloseBrowser 0 True]"
  let ?c1 = "snd (getInstance (Some port9333) noInstance)"
  let ?c2 = "fst (run_class externalChrome (?c1, []) ?ops)"
  let ?tr2 = "snd (run_class externalChrome (?c1, []) ?ops)"
  have h: "instance_ref noInstance = None \<and> ResetInstance \<notin> set ?ops \<and>
      getInstance (Some port9333) noInstance = (0, ?c1) \<and>
      run_class externalChrome (?c1, []) ?ops = (?c2, ?tr2)"
    by (simp add: noInstance_def getInstance_def)
  from getInstance_singleton [of None "Some port9333" noInstance ?ops 0 ?c1 externalChrome "[]" ?c2 ?tr2 None] h
  have same: "getInstance None ?c2 = (0, ?c2)"
    and cfg: "configOf (objects ?c2 ! 0) = configOf (new_SmartBrowserManager (Some port9333))"
    by blast+
  from cfg have "debugPort (objects ?c2 ! 0) = 9333"
    by (simp add: configOf_def new_SmartBrowserManager_def port9333_def emptyConfig_def)
  moreover have "debugPort (new_SmartBrowserManager None) = 9222"
    by (simp add: new_SmartBrowserManager_def emptyConfig_def)
  ultimately show ?thesis using same by simp
qed

end
